theory Spec2Isabelle
  imports Main "HOL-Library.Word"
begin

section \<open>The block poller of libbitcoin-node (src/poller.cpp)\<close>

text \<open>
  The poller is a set of callbacks. Each callback reads and writes four fields of the
  poller object and calls out to its collaborators: the channel (send, subscribe), the
  blockchain (store, block locator), the strand and the log. A callback is embedded as a
  function from the poller's fields and the callback's arguments to the new fields and
  the list of calls it made, in program order. A callback bound with
  \<^verbatim>\<open>std::bind\<close> or \<^verbatim>\<open>strand_.wrap\<close> is a value
  naming the member function and the bound arguments.
\<close>

subsection \<open>Data\<close>

text \<open>\<^verbatim>\<open>hash_digest\<close>: 32 bytes.\<close>

type_synonym hash_digest = "256 word"

text \<open>
  Modelled from the spec: the constant \<^verbatim>\<open>null_hash\<close> is declared outside
  src/; the spec calls it the well-known null sentinel, the all-zero hash.
\<close>

definition null_hash :: hash_digest where
  "null_hash = 0"

text \<open>
  \<^verbatim>\<open>std::error_code\<close> by its value; \<^verbatim>\<open>if (ec)\<close> tests
  whether the value differs from zero.
\<close>

type_synonym error_code = int

text \<open>
  \<^verbatim>\<open>network::channel_ptr\<close> is a shared pointer; the poller uses it to call
  the channel and compares the raw pointer \<^verbatim>\<open>node.get()\<close>. The model keeps
  the address of the channel object; the callbacks are bound to the pointer of the channel
  they were registered on, which holds a channel.
\<close>

type_synonym channel_ptr = nat

type_synonym block_locator_type = "hash_digest list"

text \<open>
  Modelled from the spec: the enums and message structs are declared outside src/. An
  inventory item is a (kind, hash) pair whose kinds include block and others; the get-data
  message carries a list of inventory items, the get-blocks message a locator and a stop
  hash; a storage outcome is one of orphan, confirmed (with a height) and rejected. The
  field and enumerator names are the ones src/poller.cpp uses.
\<close>

datatype inventory_type_id = error | transaction | block | none

record inventory_vector_type =
  type :: inventory_type_id
  hash :: hash_digest

record inventory_type =
  inventories :: "inventory_vector_type list"

type_synonym get_data_type = inventory_type

record get_blocks_type =
  start_hashes :: block_locator_type
  hash_stop :: hash_digest

datatype block_status = orphan | confirmed | rejected

record block_info =
  status :: block_status
  height :: nat

text \<open>
  A block: the poller only reads \<^verbatim>\<open>blk.header\<close>, to hash it. The header type
  and \<^verbatim>\<open>hash_block_header\<close> are outside src/: the header is a type parameter and
  the hash function a parameter of \<open>receive_block\<close>.
\<close>

record 'header block_type =
  header :: 'header

text \<open>
  The poller's mutable fields; the source writes each name with a trailing underscore
  (\<^verbatim>\<open>last_block_hash_\<close>), which a record field cannot have.
\<close>

record poller =
  last_locator_begin :: hash_digest
  last_hash_stop :: hash_digest
  last_requested_node :: channel_ptr
  last_block_hash :: hash_digest

subsection \<open>Calls made by a callback\<close>

datatype log_level = log_debug | log_info | log_warning | log_error

text \<open>The pieces streamed into a log line with \<^verbatim>\<open><<\<close>.\<close>

datatype log_item =
  str string
| message error_code
| encode_hash hash_digest
| number nat

text \<open>
  The callback handed to \<^verbatim>\<open>fetch_block_locator\<close>: it receives the result code
  and the locator.
\<close>

datatype locator_handler =
  bind_initial_ask_blocks channel_ptr
| wrap_ask_blocks hash_digest channel_ptr

datatype 'header call =
  write_log log_level "log_item list"
| fetch_block_locator locator_handler
| subscribe_inventory channel_ptr
| subscribe_block channel_ptr
| send_get_data channel_ptr get_data_type
| send_get_blocks channel_ptr get_blocks_type
| chain_store "'header block_type" hash_digest channel_ptr
| randomly_queue error_code block_locator_type hash_digest channel_ptr

text \<open>
  \<open>subscribe_inventory node\<close> registers \<open>receive_inv\<close> wrapped in the strand and bound
  to \<open>node\<close>; \<open>subscribe_block node\<close> registers \<open>receive_block\<close> bound to \<open>node\<close>;
  \<open>send_get_data\<close> and \<open>send_get_blocks\<close> are \<^verbatim>\<open>node->send\<close> with
  \<open>handle_send_packet\<close> as completion handler; \<open>chain_store blk h node\<close> is
  \<^verbatim>\<open>chain_.store\<close> with \<open>handle_store\<close> wrapped in the strand and bound to
  the block hash \<open>h\<close> and \<open>node\<close>; \<open>randomly_queue ec locator h node\<close> queues
  \<open>ask_blocks\<close> with these arguments on the strand.
\<close>

text \<open>
  Reading \<^verbatim>\<open>locator.front()\<close> of an empty vector is undefined behaviour in
  C++: it is a fault of the model.
\<close>

datatype fault = front_of_empty_locator

type_synonym 'header outcome = "fault + (poller \<times> 'header call list)"

subsection \<open>The callbacks\<close>

definition query :: "poller \<Rightarrow> channel_ptr \<Rightarrow> poller \<times> 'header call list" where
  "query st node = (st, [fetch_block_locator (bind_initial_ask_blocks node)])"

definition monitor :: "poller \<Rightarrow> channel_ptr \<Rightarrow> poller \<times> 'header call list" where
  "monitor st node = (st, [subscribe_inventory node, subscribe_block node])"

definition initial_ask_blocks ::
  "poller \<Rightarrow> error_code \<Rightarrow> block_locator_type \<Rightarrow> channel_ptr \<Rightarrow> poller \<times> 'header call list" where
  "initial_ask_blocks st ec locator node =
     (if ec \<noteq> 0 then
        (st, [write_log log_error [str ''Fetching initial block locator: '', message ec]])
      else (st, [randomly_queue ec locator null_hash node]))"

definition handle_send_packet :: "error_code \<Rightarrow> 'header call list" where
  "handle_send_packet ec =
     (if ec \<noteq> 0 then [write_log log_error [str ''Send problem: '', message ec]] else [])"

text \<open>
  The loop of \<open>receive_inv\<close> over \<^verbatim>\<open>packet.inventories\<close>; \<open>getdata\<close> is
  the vector filled by \<^verbatim>\<open>push_back\<close>.
\<close>

fun receive_inv_loop ::
  "hash_digest \<Rightarrow> inventory_vector_type list \<Rightarrow> inventory_vector_type list
     \<Rightarrow> inventory_vector_type list" where
  "receive_inv_loop last_hash [] getdata = getdata"
| "receive_inv_loop last_hash (ivv # rest) getdata =
     (if type ivv \<noteq> block then receive_inv_loop last_hash rest getdata
      else if hash ivv = last_hash then receive_inv_loop last_hash rest getdata
      else receive_inv_loop last_hash rest (getdata @ [ivv]))"

definition receive_inv ::
  "poller \<Rightarrow> error_code \<Rightarrow> inventory_type \<Rightarrow> channel_ptr \<Rightarrow> poller \<times> 'header call list" where
  "receive_inv st ec packet node =
     (if ec \<noteq> 0 then
        (st, [write_log log_warning [str ''Received bad inventory: '', message ec]])
      else
        let getdata = \<lparr>inventories =
              receive_inv_loop (last_block_hash st) (inventories packet) []\<rparr>
        in if inventories getdata \<noteq> [] then
             (st\<lparr>last_block_hash := hash (last (inventories getdata))\<rparr>,
              [send_get_data node getdata, subscribe_inventory node])
           else (st, [subscribe_inventory node]))"

definition receive_block ::
  "('header \<Rightarrow> hash_digest) \<Rightarrow> poller \<Rightarrow> error_code \<Rightarrow> 'header block_type \<Rightarrow> channel_ptr
     \<Rightarrow> poller \<times> 'header call list" where
  "receive_block hash_block_header st ec blk node =
     (if ec \<noteq> 0 then
        (st, [write_log log_warning [str ''Received bad block: '', message ec]])
      else
        (st, [chain_store blk (hash_block_header (header blk)) node,
              subscribe_block node]))"

definition handle_store ::
  "poller \<Rightarrow> error_code \<Rightarrow> block_info \<Rightarrow> hash_digest \<Rightarrow> channel_ptr
     \<Rightarrow> poller \<times> 'header call list" where
  "handle_store st ec info block_hash node =
     (if ec \<noteq> 0 \<and> status info \<noteq> orphan then
        (st, [write_log log_warning
                [str ''Storing block '', encode_hash block_hash, str '': '', message ec]])
      else
        (case status info of
           orphan \<Rightarrow>
             (st, [write_log log_warning [str ''Orphan block '', encode_hash block_hash],
                   fetch_block_locator (wrap_ask_blocks block_hash node)])
         | rejected \<Rightarrow>
             (st, [write_log log_warning [str ''Rejected block '', encode_hash block_hash]])
         | confirmed \<Rightarrow>
             (st, [write_log log_info
                     [str ''Block #'', number (height info), str '' '',
                      encode_hash block_hash]])))"

definition ask_blocks ::
  "poller \<Rightarrow> error_code \<Rightarrow> block_locator_type \<Rightarrow> hash_digest \<Rightarrow> channel_ptr
     \<Rightarrow> 'header outcome" where
  "ask_blocks st ec locator hash_stop' node =
     (if ec \<noteq> 0 then
        Inr (st, [write_log log_error [str ''Ask for blocks: '', message ec]])
      else
        (case locator of
           [] \<Rightarrow> Inl front_of_empty_locator
         | front # _ \<Rightarrow>
             if last_locator_begin st = front \<and> last_hash_stop st = hash_stop' \<and>
                last_requested_node st = node
             then
               Inr (st, [write_log log_debug
                           [str ''Skipping duplicate ask blocks: '', encode_hash front]])
             else
               Inr (st\<lparr>last_locator_begin := front, last_hash_stop := hash_stop',
                        last_requested_node := node\<rparr>,
                    [send_get_blocks node
                       \<lparr>start_hashes = locator, hash_stop = hash_stop'\<rparr>])))"

subsection \<open>Completions and the calls of the poller over time\<close>

text \<open>
  What \<^verbatim>\<open>fetch_block_locator\<close> calls when the locator is there: the bound
  member function, applied to the result code and the locator.
\<close>

definition run_locator_handler ::
  "locator_handler \<Rightarrow> poller \<Rightarrow> error_code \<Rightarrow> block_locator_type \<Rightarrow> 'header outcome" where
  "run_locator_handler h st ec locator =
     (case h of
        bind_initial_ask_blocks node \<Rightarrow> Inr (initial_ask_blocks st ec locator node)
      | wrap_ask_blocks block_hash node \<Rightarrow> ask_blocks st ec locator block_hash node)"

text \<open>
  One entry into the poller: a call of its public interface, or a callback the poller
  handed out, called with the arguments its collaborator supplies. The strand runs one
  callback at a time, so a history of the poller is a list of entries.
\<close>

datatype 'header entry =
  enter_query channel_ptr
| enter_monitor channel_ptr
| enter_receive_inv error_code inventory_type channel_ptr
| enter_receive_block error_code "'header block_type" channel_ptr
| enter_locator_handler locator_handler error_code block_locator_type
| enter_handle_store error_code block_info hash_digest channel_ptr
| enter_queued_ask_blocks error_code block_locator_type hash_digest channel_ptr

fun enter ::
  "('header \<Rightarrow> hash_digest) \<Rightarrow> poller \<Rightarrow> 'header entry \<Rightarrow> 'header outcome" where
  "enter hbh st (enter_query node) = Inr (query st node)"
| "enter hbh st (enter_monitor node) = Inr (monitor st node)"
| "enter hbh st (enter_receive_inv ec packet node) = Inr (receive_inv st ec packet node)"
| "enter hbh st (enter_receive_block ec blk node) = Inr (receive_block hbh st ec blk node)"
| "enter hbh st (enter_locator_handler h ec locator) = run_locator_handler h st ec locator"
| "enter hbh st (enter_handle_store ec info block_hash node) =
     Inr (handle_store st ec info block_hash node)"
| "enter hbh st (enter_queued_ask_blocks ec locator h node) = ask_blocks st ec locator h node"

text \<open>A history from a state: the final fields and all calls made, in order.\<close>

fun run ::
  "('header \<Rightarrow> hash_digest) \<Rightarrow> poller \<Rightarrow> 'header entry list \<Rightarrow> 'header outcome" where
  "run hbh st [] = Inr (st, [])"
| "run hbh st (e # es) =
     (case enter hbh st e of
        Inl f \<Rightarrow> Inl f
      | Inr (st1, calls1) \<Rightarrow>
          (case run hbh st1 es of
             Inl f \<Rightarrow> Inl f
           | Inr (st2, calls2) \<Rightarrow> Inr (st2, calls1 @ calls2)))"

text \<open>The get-blocks messages among the calls, each as the tuple the poller remembers.\<close>

fun sent_get_blocks :: "'header call list \<Rightarrow> (hash_digest \<times> hash_digest \<times> channel_ptr) list" where
  "sent_get_blocks [] = []"
| "sent_get_blocks (send_get_blocks node packet # cs) =
     (hd (start_hashes packet), hash_stop packet, node) # sent_get_blocks cs"
| "sent_get_blocks (_ # cs) = sent_get_blocks cs"

definition last_locator_request :: "poller \<Rightarrow> hash_digest \<times> hash_digest \<times> channel_ptr" where
  "last_locator_request st = (last_locator_begin st, last_hash_stop st, last_requested_node st)"


text \<open>The get-data messages among the calls.\<close>

fun sent_get_data :: "'header call list \<Rightarrow> (channel_ptr \<times> get_data_type) list" where
  "sent_get_data [] = []"
| "sent_get_data (send_get_data node packet # cs) = (node, packet) # sent_get_data cs"
| "sent_get_data (_ # cs) = sent_get_data cs"

text \<open>Every message sent to a channel: whether a call is a \<^verbatim>\<open>node->send\<close>.\<close>

fun is_send :: "'header call \<Rightarrow> bool" where
  "is_send (send_get_data _ _) = True"
| "is_send (send_get_blocks _ _) = True"
| "is_send _ = False"

fun is_fetch_block_locator :: "'header call \<Rightarrow> bool" where
  "is_fetch_block_locator (fetch_block_locator _) = True"
| "is_fetch_block_locator _ = False"

subsection \<open>The channel's subscriptions\<close>

text \<open>
  Modelled from the spec: the channel class is outside src/. The spec gives the contract
  of \<^verbatim>\<open>subscribe_inventory\<close> and \<^verbatim>\<open>subscribe_block\<close>: a subscription
  is one-shot per call and must be issued again after each delivered event to go on
  receiving. The world holds the poller's fields and, for each kind of event, the channels
  with a pending subscription of the poller, one entry per call of subscribe.
\<close>

record world =
  driver :: poller
  inventory_subscribers :: "channel_ptr list"
  block_subscribers :: "channel_ptr list"

fun subscribe :: "'header call \<Rightarrow> world \<Rightarrow> world" where
  "subscribe (subscribe_inventory node) w =
     w\<lparr>inventory_subscribers := inventory_subscribers w @ [node]\<rparr>"
| "subscribe (subscribe_block node) w =
     w\<lparr>block_subscribers := block_subscribers w @ [node]\<rparr>"
| "subscribe _ w = w"

definition deliver_monitor :: "world \<Rightarrow> channel_ptr \<Rightarrow> world" where
  "deliver_monitor w node =
     (case (monitor (driver w) node :: poller \<times> unit call list) of
        (st, calls) \<Rightarrow> fold subscribe calls (w\<lparr>driver := st\<rparr>))"

text \<open>
  An inventory event on \<open>node\<close> is deliverable when a subscription is pending there; the
  delivery uses the subscription up and calls \<open>receive_inv\<close>.
\<close>

definition deliver_inventory ::
  "world \<Rightarrow> error_code \<Rightarrow> inventory_type \<Rightarrow> channel_ptr \<Rightarrow> world option" where
  "deliver_inventory w ec packet node =
     (if node \<in> set (inventory_subscribers w) then
        (case (receive_inv (driver w) ec packet node :: poller \<times> unit call list) of
           (st, calls) \<Rightarrow>
             Some (fold subscribe calls
               (w\<lparr>driver := st,
                  inventory_subscribers := remove1 node (inventory_subscribers w)\<rparr>)))
      else None)"

definition deliver_block ::
  "('header \<Rightarrow> hash_digest) \<Rightarrow> world \<Rightarrow> error_code \<Rightarrow> 'header block_type \<Rightarrow> channel_ptr
     \<Rightarrow> world option" where
  "deliver_block hbh w ec blk node =
     (if node \<in> set (block_subscribers w) then
        (case receive_block hbh (driver w) ec blk node of
           (st, calls) \<Rightarrow>
             Some (fold subscribe calls
               (w\<lparr>driver := st, block_subscribers := remove1 node (block_subscribers w)\<rparr>)))
      else None)"

section \<open>Inventory announcements\<close>

text \<open>The loop keeps, in order, the block items whose hash is not the remembered one.\<close>

lemma receive_inv_loop_filter:
  "receive_inv_loop last_hash items getdata =
     getdata @ filter (\<lambda>ivv. type ivv = block \<and> hash ivv \<noteq> last_hash) items"
  by (induction items arbitrary: getdata) simp_all

lemma receive_inv_success:
  "receive_inv st 0 packet node =
     (let wanted = filter (\<lambda>ivv. type ivv = block \<and> hash ivv \<noteq> last_block_hash st)
                     (inventories packet)
      in if wanted = [] then (st, [subscribe_inventory node])
         else (st\<lparr>last_block_hash := hash (last wanted)\<rparr>,
               [send_get_data node \<lparr>inventories = wanted\<rparr>, subscribe_inventory node]))"
  by (simp add: receive_inv_def receive_inv_loop_filter Let_def)

text \<open>
  C4. For an inventory batch delivered with success, the get-data request holds exactly
  the announced items of kind block whose hash differs from \<open>last_block_hash\<close> as it
  was before the call, in the order announced: no item of another kind and no item with
  that hash. When this list is not empty, \<open>last_block_hash\<close> becomes the hash of its last
  item and the request is sent to the announcing channel; when it is empty nothing is
  sent.
\<close>

theorem receive_inv_get_data:
  "(receive_inv st 0 packet node :: poller \<times> 'header call list) =
     (let wanted = filter (\<lambda>ivv. type ivv = block \<and> hash ivv \<noteq> last_block_hash st)
                     (inventories packet)
      in if wanted = [] then (st, [subscribe_inventory node])
         else (st\<lparr>last_block_hash := hash (last wanted)\<rparr>,
               [send_get_data node \<lparr>inventories = wanted\<rparr>, subscribe_inventory node]))
   \<and> (\<forall>(n, getdata) \<in>
          set (sent_get_data (snd (receive_inv st 0 packet node :: poller \<times> 'header call list))).
        n = node \<and>
        (\<forall>ivv \<in> set (inventories getdata).
           ivv \<in> set (inventories packet) \<and> type ivv = block \<and>
           hash ivv \<noteq> last_block_hash st))"
  by (auto simp add: receive_inv_success Let_def)

text \<open>
  The scenario of the spec: the peer announces blocks A and B while A is the remembered
  hash; the request holds B only and B is remembered.
\<close>

theorem receive_inv_get_data_witness:
  "receive_inv \<lparr>last_locator_begin = 0, last_hash_stop = 0, last_requested_node = 0,
                last_block_hash = 10\<rparr> 0
     \<lparr>inventories = [\<lparr>type = block, hash = 10\<rparr>, \<lparr>type = block, hash = 11\<rparr>]\<rparr> 7 =
   (\<lparr>last_locator_begin = 0, last_hash_stop = 0, last_requested_node = 0,
     last_block_hash = 11\<rparr>,
    [send_get_data 7 \<lparr>inventories = [\<lparr>type = block, hash = 11\<rparr>]\<rparr>,
     subscribe_inventory 7 :: unit call])"
  using receive_inv_get_data [where 'header = unit,
    of "\<lparr>last_locator_begin = 0, last_hash_stop = 0, last_requested_node = 0,
         last_block_hash = 10\<rparr>"
       "\<lparr>inventories = [\<lparr>type = block, hash = 10\<rparr>, \<lparr>type = block, hash = 11\<rparr>]\<rparr>" 7]
  by simp

text \<open>
  C10. When every announced item is of another kind than block or carries the remembered
  hash, a batch delivered with success sends no get-data message and leaves every field,
  \<open>last_block_hash\<close> included, as it was; the only call is the new subscription to
  inventory events on the same channel.
\<close>

theorem receive_inv_nothing_wanted:
  "\<forall>ivv \<in> set (inventories packet). type ivv \<noteq> block \<or> hash ivv = last_block_hash st \<Longrightarrow>
   (receive_inv st 0 packet node :: poller \<times> 'header call list) = (st, [subscribe_inventory node])"
proof -
  assume a: "\<forall>ivv \<in> set (inventories packet). type ivv \<noteq> block \<or> hash ivv = last_block_hash st"
  have "filter (\<lambda>ivv. type ivv = block \<and> hash ivv \<noteq> last_block_hash st) (inventories packet) = []"
    using a by (auto simp add: filter_empty_conv)
  then show ?thesis by (simp add: receive_inv_success)
qed

theorem receive_inv_nothing_wanted_witness:
  "list_all (\<lambda>ivv. type ivv \<noteq> block \<or> hash ivv = 10)
     [\<lparr>type = transaction, hash = 3\<rparr>, \<lparr>type = block, hash = 10\<rparr>] \<and>
   receive_inv \<lparr>last_locator_begin = 0, last_hash_stop = 0, last_requested_node = 0,
                last_block_hash = 10\<rparr> 0
     \<lparr>inventories = [\<lparr>type = transaction, hash = 3\<rparr>, \<lparr>type = block, hash = 10\<rparr>]\<rparr> 7 =
   (\<lparr>last_locator_begin = 0, last_hash_stop = 0, last_requested_node = 0,
     last_block_hash = 10\<rparr>, [subscribe_inventory 7 :: unit call])"
  using receive_inv_nothing_wanted [where 'header = unit,
    of "\<lparr>inventories = [\<lparr>type = transaction, hash = 3\<rparr>, \<lparr>type = block, hash = 10\<rparr>]\<rparr>"
       "\<lparr>last_locator_begin = 0, last_hash_stop = 0, last_requested_node = 0,
         last_block_hash = 10\<rparr>" 7]
  by simp

text \<open>
  C6, as the spec states it: the get-data request holds no two entries with the same
  hash, even when the batch announces a block hash more than once. The source has no
  step that removes repeated entries: a batch announcing block 11 twice is requested as
  announced, with both entries.
\<close>

theorem receive_inv_repeated_hash:
  "receive_inv \<lparr>last_locator_begin = 0, last_hash_stop = 0, last_requested_node = 0,
                last_block_hash = 10\<rparr> 0
     \<lparr>inventories = [\<lparr>type = block, hash = 11\<rparr>, \<lparr>type = block, hash = 11\<rparr>]\<rparr> 7 =
   (\<lparr>last_locator_begin = 0, last_hash_stop = 0, last_requested_node = 0,
     last_block_hash = 11\<rparr>,
    [send_get_data 7 \<lparr>inventories = [\<lparr>type = block, hash = 11\<rparr>, \<lparr>type = block, hash = 11\<rparr>]\<rparr>,
     subscribe_inventory 7 :: unit call]) \<and>
   \<not> distinct (map hash [\<lparr>type = block, hash = 11\<rparr>, \<lparr>type = block, hash = 11\<rparr>])"
  by (simp add: receive_inv_def)

lemma count_list_map_filter:
  "count_list (map f (filter P xs)) h = length (filter (\<lambda>x. P x \<and> f x = h) xs)"
  by (induction xs) simp_all

text \<open>
  C6, amended. The get-data request of a batch delivered with success holds each hash as
  often as the batch announces it as a block, except the remembered hash, which it never
  holds. So the request has no two entries with the same hash whenever the block items
  of the batch have pairwise different hashes.
\<close>

theorem receive_inv_get_data_multiplicity:
  "\<forall>(n, getdata) \<in>
      set (sent_get_data (snd (receive_inv st 0 packet node :: poller \<times> 'header call list))).
     (\<forall>h. count_list (map hash (inventories getdata)) h =
        (if h = last_block_hash st then 0
         else count_list (map hash (filter (\<lambda>ivv. type ivv = block) (inventories packet))) h)) \<and>
     (distinct (map hash (filter (\<lambda>ivv. type ivv = block) (inventories packet))) \<longrightarrow>
        distinct (map hash (inventories getdata)))"
proof -
  let ?blocks = "filter (\<lambda>ivv. type ivv = block) (inventories packet)"
  let ?wanted = "filter (\<lambda>ivv. type ivv = block \<and> hash ivv \<noteq> last_block_hash st)
                   (inventories packet)"
  have w: "?wanted = filter (\<lambda>ivv. hash ivv \<noteq> last_block_hash st) ?blocks"
    by (simp add: conj_commute)
  have c: "count_list (map hash ?wanted) h =
      (if h = last_block_hash st then 0 else count_list (map hash ?blocks) h)" for h
    by (auto simp add: count_list_map_filter intro: arg_cong [where f = length] filter_cong)
  have d: "distinct (map hash ?wanted)" if "distinct (map hash ?blocks)"
  proof -
    have "distinct (map hash (filter (\<lambda>ivv. hash ivv \<noteq> last_block_hash st) ?blocks))"
      using that by (rule distinct_map_filter)
    then show ?thesis by (simp only: w)
  qed
  show ?thesis
    using c d by (auto simp add: receive_inv_success Let_def)
qed

text \<open>
  A batch with a transaction and two different blocks: both blocks are requested, once
  each.
\<close>

theorem receive_inv_get_data_multiplicity_witness:
  "distinct (map hash (filter (\<lambda>ivv. type ivv = block)
     [\<lparr>type = block, hash = 11\<rparr>, \<lparr>type = transaction, hash = 11\<rparr>,
      \<lparr>type = block, hash = 12\<rparr>])) \<and>
   sent_get_data (snd (receive_inv
     \<lparr>last_locator_begin = 0, last_hash_stop = 0, last_requested_node = 0,
       last_block_hash = 10\<rparr> 0
     \<lparr>inventories = [\<lparr>type = block, hash = 11\<rparr>, \<lparr>type = transaction, hash = 11\<rparr>,
                      \<lparr>type = block, hash = 12\<rparr>]\<rparr> 7 :: poller \<times> unit call list)) =
     [(7, \<lparr>inventories = [\<lparr>type = block, hash = 11\<rparr>, \<lparr>type = block, hash = 12\<rparr>]\<rparr>)] \<and>
   distinct (map hash [\<lparr>type = block, hash = 11\<rparr>, \<lparr>type = block, hash = 12\<rparr>]) \<and>
   count_list (map hash [\<lparr>type = block, hash = 11\<rparr>, \<lparr>type = block, hash = 12\<rparr>]) 11 = 1"
  using receive_inv_get_data_multiplicity [where 'header = unit,
    of "\<lparr>last_locator_begin = 0, last_hash_stop = 0, last_requested_node = 0,
         last_block_hash = 10\<rparr>"
       "\<lparr>inventories = [\<lparr>type = block, hash = 11\<rparr>, \<lparr>type = transaction, hash = 11\<rparr>,
                        \<lparr>type = block, hash = 12\<rparr>]\<rparr>" 7]
  by (simp add: receive_inv_def)

section \<open>Subscriptions after an event\<close>

text \<open>
  C1, as the spec states it: after every delivered inventory event and every delivered
  block event, with a success or a failure result, the poller is subscribed again to the
  same kind of event on the same channel, so that a second event of that kind can be
  delivered. In the source both callbacks return right after the log line when the
  result code is set: after \<open>monitor\<close> on channel 7, an inventory event delivered with
  result code 1 leaves no inventory subscription on channel 7 and a second inventory
  event cannot be delivered; the same holds for block events.
\<close>

theorem receive_failure_not_resubscribed:
  "deliver_monitor
     \<lparr>driver = \<lparr>last_locator_begin = 0, last_hash_stop = 0, last_requested_node = 0,
                  last_block_hash = 0\<rparr>,
       inventory_subscribers = [], block_subscribers = []\<rparr> 7 =
     \<lparr>driver = \<lparr>last_locator_begin = 0, last_hash_stop = 0, last_requested_node = 0,
                  last_block_hash = 0\<rparr>,
       inventory_subscribers = [7], block_subscribers = [7]\<rparr>
   \<and> receive_inv \<lparr>last_locator_begin = 0, last_hash_stop = 0, last_requested_node = 0,
                    last_block_hash = 0\<rparr> 1 \<lparr>inventories = []\<rparr> 7 =
       (\<lparr>last_locator_begin = 0, last_hash_stop = 0, last_requested_node = 0,
          last_block_hash = 0\<rparr>,
        [write_log log_warning [str ''Received bad inventory: '', message 1] :: nat call])
   \<and> deliver_inventory
       \<lparr>driver = \<lparr>last_locator_begin = 0, last_hash_stop = 0, last_requested_node = 0,
                    last_block_hash = 0\<rparr>,
         inventory_subscribers = [7], block_subscribers = [7]\<rparr> 1 \<lparr>inventories = []\<rparr> 7 =
       Some \<lparr>driver = \<lparr>last_locator_begin = 0, last_hash_stop = 0, last_requested_node = 0,
                    last_block_hash = 0\<rparr>,
              inventory_subscribers = [], block_subscribers = [7]\<rparr>
   \<and> deliver_inventory
       \<lparr>driver = \<lparr>last_locator_begin = 0, last_hash_stop = 0, last_requested_node = 0,
                    last_block_hash = 0\<rparr>,
         inventory_subscribers = [], block_subscribers = [7]\<rparr> 0
       \<lparr>inventories = [\<lparr>type = block, hash = 11\<rparr>]\<rparr> 7 = None
   \<and> receive_block of_nat
       \<lparr>last_locator_begin = 0, last_hash_stop = 0, last_requested_node = 0,
         last_block_hash = 0\<rparr> 1 \<lparr>header = 12\<rparr> 7 =
       (\<lparr>last_locator_begin = 0, last_hash_stop = 0, last_requested_node = 0,
          last_block_hash = 0\<rparr>,
        [write_log log_warning [str ''Received bad block: '', message 1]])
   \<and> deliver_block of_nat
       \<lparr>driver = \<lparr>last_locator_begin = 0, last_hash_stop = 0, last_requested_node = 0,
                    last_block_hash = 0\<rparr>,
         inventory_subscribers = [7], block_subscribers = [7]\<rparr> 1 \<lparr>header = 12\<rparr> 7 =
       Some \<lparr>driver = \<lparr>last_locator_begin = 0, last_hash_stop = 0, last_requested_node = 0,
                    last_block_hash = 0\<rparr>,
              inventory_subscribers = [7], block_subscribers = []\<rparr>
   \<and> deliver_block of_nat
       \<lparr>driver = \<lparr>last_locator_begin = 0, last_hash_stop = 0, last_requested_node = 0,
                    last_block_hash = 0\<rparr>,
         inventory_subscribers = [7], block_subscribers = []\<rparr> 0 \<lparr>header = 12\<rparr> 7 = None"
  by (simp add: deliver_monitor_def monitor_def receive_inv_def receive_block_def
      deliver_inventory_def deliver_block_def)

text \<open>
  C1, amended. After a delivered inventory event and after a delivered block event whose
  result is success, the poller is subscribed again, once, to the same kind of event on
  the same channel, and a second event of that kind can be delivered. When the result is
  a failure the callback logs a warning and does nothing else: the subscription used up
  by the delivery is not replaced. The subscriptions of the other kind are left as they
  were.
\<close>

theorem receive_resubscribes_on_success:
  "(subscribe_inventory node \<in> set (snd (receive_inv st ec packet node :: poller \<times> 'header call list)))
     = (ec = 0)
   \<and> (subscribe_block node \<in> set (snd (receive_block hbh st ec blk node))) = (ec = 0)
   \<and> (ec \<noteq> 0 \<longrightarrow>
        (receive_inv st ec packet node :: poller \<times> 'header call list) =
          (st, [write_log log_warning [str ''Received bad inventory: '', message ec]]) \<and>
        receive_block hbh st ec blk node =
          (st, [write_log log_warning [str ''Received bad block: '', message ec]]))
   \<and> (node \<in> set (inventory_subscribers w) \<longrightarrow>
        (case deliver_inventory w ec packet node of
           None \<Rightarrow> False
         | Some w1 \<Rightarrow>
             inventory_subscribers w1 =
               remove1 node (inventory_subscribers w) @ (if ec = 0 then [node] else []) \<and>
             block_subscribers w1 = block_subscribers w \<and>
             (ec = 0 \<longrightarrow> deliver_inventory w1 ec2 packet2 node \<noteq> None)))
   \<and> (node \<in> set (block_subscribers w) \<longrightarrow>
        (case deliver_block hbh w ec blk node of
           None \<Rightarrow> False
         | Some w1 \<Rightarrow>
             block_subscribers w1 =
               remove1 node (block_subscribers w) @ (if ec = 0 then [node] else []) \<and>
             inventory_subscribers w1 = inventory_subscribers w \<and>
             (ec = 0 \<longrightarrow> deliver_block hbh w1 ec2 blk2 node \<noteq> None)))"
  by (auto simp add: receive_inv_def receive_block_def deliver_inventory_def
      deliver_block_def Let_def split: prod.splits)

theorem receive_resubscribes_on_success_witness:
  "deliver_inventory
       \<lparr>driver = \<lparr>last_locator_begin = 0, last_hash_stop = 0, last_requested_node = 0,
                    last_block_hash = 0\<rparr>,
         inventory_subscribers = [7], block_subscribers = [7]\<rparr> 0
       \<lparr>inventories = [\<lparr>type = block, hash = 11\<rparr>]\<rparr> 7 =
     Some \<lparr>driver = \<lparr>last_locator_begin = 0, last_hash_stop = 0, last_requested_node = 0,
                    last_block_hash = 11\<rparr>,
         inventory_subscribers = [7], block_subscribers = [7]\<rparr>
   \<and> deliver_inventory
       \<lparr>driver = \<lparr>last_locator_begin = 0, last_hash_stop = 0, last_requested_node = 0,
                    last_block_hash = 11\<rparr>,
         inventory_subscribers = [7], block_subscribers = [7]\<rparr> 0
       \<lparr>inventories = [\<lparr>type = block, hash = 11\<rparr>]\<rparr> 7 \<noteq> None
   \<and> deliver_block of_nat
       \<lparr>driver = \<lparr>last_locator_begin = 0, last_hash_stop = 0, last_requested_node = 0,
                    last_block_hash = 0\<rparr>,
         inventory_subscribers = [7], block_subscribers = [7]\<rparr> 0 \<lparr>header = 12\<rparr> 7 =
       Some \<lparr>driver = \<lparr>last_locator_begin = 0, last_hash_stop = 0, last_requested_node = 0,
                    last_block_hash = 0\<rparr>,
              inventory_subscribers = [7], block_subscribers = [7]\<rparr>"
  using receive_resubscribes_on_success [where 'header = nat and 'a = nat
      and hbh = of_nat and node = 7 and ec = 0 and ?ec2.0 = 0
      and w = "\<lparr>driver = \<lparr>last_locator_begin = 0, last_hash_stop = 0,
                 last_requested_node = 0, last_block_hash = 0\<rparr>,
                 inventory_subscribers = [7], block_subscribers = [7]\<rparr>"
      and packet = "\<lparr>inventories = [\<lparr>type = block, hash = 11\<rparr>]\<rparr>"
      and ?packet2.0 = "\<lparr>inventories = [\<lparr>type = block, hash = 11\<rparr>]\<rparr>"
      and blk = "\<lparr>header = 12\<rparr>" and ?blk2.0 = "\<lparr>header = 12\<rparr>"
      and st = "\<lparr>last_locator_begin = 0, last_hash_stop = 0,
                 last_requested_node = 0, last_block_hash = 0\<rparr>"]
  by (simp add: deliver_inventory_def deliver_block_def receive_inv_def receive_block_def)

section \<open>Storage completions\<close>

text \<open>
  C7. A storage completion whose outcome is confirmed or rejected leaves the fields as
  they were and makes one call, a log line: no message is sent to the channel, no
  get-blocks request among them, and no locator is fetched. With a failure result the
  line is the warning about storing the block, whatever the outcome of the two.
\<close>

theorem handle_store_confirmed_rejected:
  "status info = confirmed \<or> status info = rejected \<Longrightarrow>
   (handle_store st ec info block_hash node :: poller \<times> 'header call list) =
     (st, [if ec \<noteq> 0 then
             write_log log_warning
               [str ''Storing block '', encode_hash block_hash, str '': '', message ec]
           else if status info = rejected then
             write_log log_warning [str ''Rejected block '', encode_hash block_hash]
           else
             write_log log_info
               [str ''Block #'', number (height info), str '' '', encode_hash block_hash]])
   \<and> list_all (\<lambda>c. \<not> is_send c \<and> \<not> is_fetch_block_locator c)
        (snd (handle_store st ec info block_hash node :: poller \<times> 'header call list))
   \<and> sent_get_blocks (snd (handle_store st ec info block_hash node :: poller \<times> 'header call list)) = []"
  by (auto simp add: handle_store_def)

theorem handle_store_confirmed_rejected_witness:
  "handle_store \<lparr>last_locator_begin = 1, last_hash_stop = 2, last_requested_node = 7,
                 last_block_hash = 10\<rparr> 0 \<lparr>status = confirmed, height = 100\<rparr> 12 7 =
     (\<lparr>last_locator_begin = 1, last_hash_stop = 2, last_requested_node = 7,
                 last_block_hash = 10\<rparr>,
      [write_log log_info [str ''Block #'', number 100, str '' '', encode_hash 12] :: unit call])
   \<and> handle_store \<lparr>last_locator_begin = 1, last_hash_stop = 2, last_requested_node = 7,
                 last_block_hash = 10\<rparr> 5 \<lparr>status = rejected, height = 0\<rparr> 12 7 =
     (\<lparr>last_locator_begin = 1, last_hash_stop = 2, last_requested_node = 7,
                 last_block_hash = 10\<rparr>,
      [write_log log_warning [str ''Storing block '', encode_hash 12, str '': '', message 5]
        :: unit call])"
  using handle_store_confirmed_rejected [where 'header = unit,
      of "\<lparr>status = confirmed, height = 100\<rparr>"
         "\<lparr>last_locator_begin = 1, last_hash_stop = 2, last_requested_node = 7,
                 last_block_hash = 10\<rparr>" 0 12 7]
    handle_store_confirmed_rejected [where 'header = unit,
      of "\<lparr>status = rejected, height = 0\<rparr>"
         "\<lparr>last_locator_begin = 1, last_hash_stop = 2, last_requested_node = 7,
                 last_block_hash = 10\<rparr>" 5 12 7]
  by simp




section \<open>Asking for blocks\<close>

lemma ask_blocks_front:
  "(ask_blocks st ec (front # rest) h node :: 'header outcome) =
     Inr (if ec \<noteq> 0 then
            (st, [write_log log_error [str ''Ask for blocks: '', message ec]])
          else if last_locator_request st = (front, h, node) then
            (st, [write_log log_debug
                    [str ''Skipping duplicate ask blocks: '', encode_hash front]])
          else
            (st\<lparr>last_locator_begin := front, last_hash_stop := h, last_requested_node := node\<rparr>,
             [send_get_blocks node \<lparr>start_hashes = front # rest, hash_stop = h\<rparr>]))"
  by (simp add: ask_blocks_def last_locator_request_def)

lemma ask_blocks_fault:
  "((ask_blocks st ec locator h node :: 'header outcome) = Inl f) = (ec = 0 \<and> locator = [])"
  by (cases f) (simp add: ask_blocks_def split: list.split)

text \<open>
  C9. \<open>ask_blocks\<close> reads the first element of the locator without testing that there
  is one, in the comparison with the remembered request and in the update of the
  remembered request. For a given locator, the call is free of the out-of-range read for
  every state, result code, stop hash and channel exactly when the locator is not empty.
  The read is reached on a success result only: the call reads out of range exactly when
  the result is success and the locator is empty.
\<close>

theorem ask_blocks_needs_front:
  "(\<forall>st ec h node. (ask_blocks st ec locator h node :: 'header outcome) \<noteq> Inl front_of_empty_locator)
     = (locator \<noteq> [])
   \<and> ((ask_blocks st ec locator h node :: 'header outcome) = Inl front_of_empty_locator)
     = (ec = 0 \<and> locator = [])"
proof -
  have "\<exists>st ec h node. (ask_blocks st ec locator h node :: 'header outcome) = Inl front_of_empty_locator"
    if "locator = []"
  proof -
    have "(ask_blocks \<lparr>last_locator_begin = 0, last_hash_stop = 0, last_requested_node = 0,
        last_block_hash = 0\<rparr> 0 locator 0 0 :: 'header outcome) = Inl front_of_empty_locator"
      using that by (simp add: ask_blocks_fault)
    then show ?thesis by blast
  qed
  then show ?thesis
    by (auto simp add: ask_blocks_fault)
qed

theorem ask_blocks_needs_front_witness:
  "(ask_blocks \<lparr>last_locator_begin = 0, last_hash_stop = 0, last_requested_node = 0,
                last_block_hash = 0\<rparr> 0 [] 12 7 :: unit outcome) = Inl front_of_empty_locator
   \<and> (ask_blocks \<lparr>last_locator_begin = 0, last_hash_stop = 0, last_requested_node = 0,
                last_block_hash = 0\<rparr> 1 [] 12 7 :: unit outcome) \<noteq> Inl front_of_empty_locator
   \<and> (ask_blocks \<lparr>last_locator_begin = 0, last_hash_stop = 0, last_requested_node = 0,
                last_block_hash = 0\<rparr> 0 [21] 12 7 :: unit outcome) \<noteq> Inl front_of_empty_locator"
  by (simp add: ask_blocks_needs_front [THEN conjunct2])

text \<open>
  C2. Two calls of \<open>ask_blocks\<close> one after the other with the same first hash of the
  locator, the same stop hash and the same channel both return, and at most one
  get-blocks message is sent by the two together. When the first call had a success
  result, the second sends nothing and leaves the fields as they were; when both had, the
  only call of the second is the log line at debug level that it skips a duplicate.
\<close>

theorem ask_blocks_twice:
  "(case (ask_blocks st ec1 (front # rest1) h node :: 'header outcome) of
      Inl f \<Rightarrow> False
    | Inr (st1, calls1) \<Rightarrow>
        (case (ask_blocks st1 ec2 (front # rest2) h node :: 'header outcome) of
           Inl f \<Rightarrow> False
         | Inr (st2, calls2) \<Rightarrow>
             length (sent_get_blocks (calls1 @ calls2)) \<le> 1 \<and>
             (ec1 = 0 \<longrightarrow> st2 = st1 \<and> list_all (\<lambda>c. \<not> is_send c) calls2) \<and>
             (ec1 = 0 \<and> ec2 = 0 \<longrightarrow>
                calls2 = [write_log log_debug
                            [str ''Skipping duplicate ask blocks: '', encode_hash front]])))"
  by (simp add: ask_blocks_front last_locator_request_def)

theorem ask_blocks_twice_witness:
  "(ask_blocks \<lparr>last_locator_begin = 0, last_hash_stop = 0, last_requested_node = 0,
                last_block_hash = 0\<rparr> 0 [21, 22] null_hash 7 :: unit outcome) =
     Inr (\<lparr>last_locator_begin = 21, last_hash_stop = 0, last_requested_node = 7,
            last_block_hash = 0\<rparr>,
          [send_get_blocks 7 \<lparr>start_hashes = [21, 22], hash_stop = 0\<rparr>])
   \<and> (ask_blocks \<lparr>last_locator_begin = 21, last_hash_stop = 0, last_requested_node = 7,
            last_block_hash = 0\<rparr> 0 [21, 22] null_hash 7 :: unit outcome) =
     Inr (\<lparr>last_locator_begin = 21, last_hash_stop = 0, last_requested_node = 7,
            last_block_hash = 0\<rparr>,
          [write_log log_debug [str ''Skipping duplicate ask blocks: '', encode_hash 21]])"
  using ask_blocks_twice [where 'header = unit
      and st = "\<lparr>last_locator_begin = 0, last_hash_stop = 0, last_requested_node = 0,
                last_block_hash = 0\<rparr>"
      and ?ec1.0 = 0 and ?ec2.0 = 0 and front = 21 and ?rest1.0 = "[22]" and ?rest2.0 = "[22]"
      and h = null_hash and node = 7]
  by (simp add: ask_blocks_def null_hash_def)











section \<open>The initial request\<close>

text \<open>
  C8, as the spec states it: \<open>query\<close> fetches the locator and, on success, issues an
  initial get-blocks request with that locator and the null stop hash. The request goes
  through \<open>ask_blocks\<close>: when \<open>query\<close> is called twice on channel 7 and both fetches
  succeed with the same locator, one get-blocks message is sent, for the first call,
  and the second call only logs that it skips a duplicate.
\<close>

theorem query_repeated_sends_once:
  "run of_nat
     \<lparr>last_locator_begin = 0, last_hash_stop = 0, last_requested_node = 0, last_block_hash = 0\<rparr>
     [enter_query 7, enter_locator_handler (bind_initial_ask_blocks 7) 0 [21, 22],
      enter_queued_ask_blocks 0 [21, 22] null_hash 7,
      enter_query 7, enter_locator_handler (bind_initial_ask_blocks 7) 0 [21, 22],
      enter_queued_ask_blocks 0 [21, 22] null_hash 7] =
   Inr (\<lparr>last_locator_begin = 21, last_hash_stop = null_hash, last_requested_node = 7,
          last_block_hash = 0\<rparr>,
        [fetch_block_locator (bind_initial_ask_blocks 7),
         randomly_queue 0 [21, 22] null_hash 7,
         send_get_blocks 7 \<lparr>start_hashes = [21, 22], hash_stop = null_hash\<rparr>,
         fetch_block_locator (bind_initial_ask_blocks 7),
         randomly_queue 0 [21, 22] null_hash 7,
         write_log log_debug [str ''Skipping duplicate ask blocks: '', encode_hash 21]
           :: nat call])
   \<and> sent_get_blocks
       [fetch_block_locator (bind_initial_ask_blocks 7),
        randomly_queue 0 [21, 22] null_hash 7,
        send_get_blocks 7 \<lparr>start_hashes = [21, 22], hash_stop = null_hash\<rparr>,
        fetch_block_locator (bind_initial_ask_blocks 7),
        randomly_queue 0 [21, 22] null_hash 7,
        write_log log_debug [str ''Skipping duplicate ask blocks: '', encode_hash 21]
          :: nat call] =
     [(21, null_hash, 7)]"
  by (simp add: query_def run_locator_handler_def initial_ask_blocks_def ask_blocks_def
      null_hash_def)

text \<open>
  C8, amended. \<open>query\<close> changes no field and makes one call: it fetches the block
  locator, handing over \<open>initial_ask_blocks\<close> bound to the channel. When the fetch
  fails, that callback logs an error and does nothing else: it queues nothing, sends
  nothing and fetches nothing again. When the fetch succeeds it queues \<open>ask_blocks\<close>
  with the fetched locator, \<open>null_hash\<close> as stop hash and the channel; run by the
  strand on a locator with a first element, that call sends the get-blocks request with
  this locator and \<open>null_hash\<close> exactly when the first locator hash, \<open>null_hash\<close> and
  the channel are not the remembered request, and otherwise logs at debug level that it
  skips a duplicate, sends nothing and changes no field.
\<close>

theorem query_initial_ask_blocks:
  "(query st node :: poller \<times> 'header call list) =
     (st, [fetch_block_locator (bind_initial_ask_blocks node)])
   \<and> (run_locator_handler (bind_initial_ask_blocks node) st1 ec locator :: 'header outcome) =
       Inr (if ec \<noteq> 0 then
              (st1, [write_log log_error
                       [str ''Fetching initial block locator: '', message ec]])
            else (st1, [randomly_queue ec locator null_hash node]))
   \<and> (enter hbh st2 (enter_queued_ask_blocks 0 (front # rest) null_hash node) :: 'header outcome) =
       Inr (if last_locator_request st2 = (front, null_hash, node) then
              (st2, [write_log log_debug
                       [str ''Skipping duplicate ask blocks: '', encode_hash front]])
            else
              (st2\<lparr>last_locator_begin := front, last_hash_stop := null_hash,
                    last_requested_node := node\<rparr>,
               [send_get_blocks node
                  \<lparr>start_hashes = front # rest, hash_stop = null_hash\<rparr>]))"
  by (simp add: query_def run_locator_handler_def initial_ask_blocks_def ask_blocks_def
      last_locator_request_def)

text \<open>
  A failed fetch after \<open>query\<close>, and a first \<open>query\<close> whose fetch succeeds.
\<close>

theorem query_initial_ask_blocks_witness:
  "run of_nat
     \<lparr>last_locator_begin = 0, last_hash_stop = 0, last_requested_node = 0, last_block_hash = 0\<rparr>
     [enter_query 7, enter_locator_handler (bind_initial_ask_blocks 7) 1 []] =
   Inr (\<lparr>last_locator_begin = 0, last_hash_stop = 0, last_requested_node = 0,
          last_block_hash = 0\<rparr>,
        [fetch_block_locator (bind_initial_ask_blocks 7),
         write_log log_error [str ''Fetching initial block locator: '', message 1]
           :: nat call])
   \<and> run of_nat
     \<lparr>last_locator_begin = 0, last_hash_stop = 0, last_requested_node = 0, last_block_hash = 0\<rparr>
     [enter_query 7, enter_locator_handler (bind_initial_ask_blocks 7) 0 [21, 22],
      enter_queued_ask_blocks 0 [21, 22] null_hash 7] =
   Inr (\<lparr>last_locator_begin = 21, last_hash_stop = null_hash, last_requested_node = 7,
          last_block_hash = 0\<rparr>,
        [fetch_block_locator (bind_initial_ask_blocks 7),
         randomly_queue 0 [21, 22] null_hash 7,
         send_get_blocks 7 \<lparr>start_hashes = [21, 22], hash_stop = null_hash\<rparr>
           :: nat call])"
  by (simp add: query_initial_ask_blocks ask_blocks_front last_locator_request_def)

end
